theory Spec2Isabelle
  imports
    Main
    "HOL-Library.Char_ord"
    "HOL-Library.List_Lexorder"
    "HOL-Library.Product_Lexorder"
begin

chapter \<open>External Adapter framework: endpoint routing, cache factory, Redis
  subscription set and WebSocket transport\<close>

text \<open>
  The development embeds four source files of the framework:
  \<^item> \<^verbatim>\<open>src/adapter/endpoint.ts\<close> (constructor and \<^verbatim>\<open>getTransportNameForRequest\<close>),
  \<^item> \<^verbatim>\<open>src/cache/factory.ts\<close> (\<^verbatim>\<open>CacheFactory.buildCache\<close>),
  \<^item> \<^verbatim>\<open>src/util/subscription-set/redis-sorted-set.ts\<close> (\<^verbatim>\<open>add\<close>, \<^verbatim>\<open>getAll\<close>),
  \<^item> \<^verbatim>\<open>src/transports/websocket.ts\<close> (\<^verbatim>\<open>streamHandler\<close>, \<^verbatim>\<open>sendMessages\<close> and the
    inbound message handler).

  Exceptions are values of a sum type (\<open>Inl\<close> is the thrown error), mutable fields
  are threaded through as records, calls on external objects (the socket, the
  response cache) are recorded as a list of effects in program order, and every
  reading of the clock is an input.
\<close>

section \<open>Errors and JavaScript truthiness\<close>

datatype adapter_error_kind =
    NoTransportResolved        \<comment> \<open>"No result was fetched from a custom router, ..."\<close>
  | NoTransportFound string    \<comment> \<open>"No transport found for key ..."\<close>

datatype js_error =
    Error string                          \<comment> \<open>\<^verbatim>\<open>new Error(message)\<close>\<close>
  | AdapterError nat adapter_error_kind   \<comment> \<open>\<^verbatim>\<open>new AdapterError({ statusCode, message })\<close>\<close>
  | SyntaxError                           \<comment> \<open>thrown by \<^verbatim>\<open>JSON.parse\<close>\<close>
  | HandlerError                          \<comment> \<open>thrown by a user supplied handler\<close>
  | TypeError                             \<comment> \<open>a method call on \<^verbatim>\<open>undefined\<close>\<close>

text \<open>A value of type \<^verbatim>\<open>string | undefined\<close> is falsy when it is \<^verbatim>\<open>undefined\<close> or
  the empty string; \<^verbatim>\<open>a || b\<close> is \<open>a\<close> when \<open>a\<close> is truthy and \<open>b\<close> otherwise.\<close>

definition falsy :: "string option \<Rightarrow> bool" where
  "falsy v = (v = None \<or> v = Some [])"

definition js_or :: "string option \<Rightarrow> string option \<Rightarrow> string option" where
  "js_or a b = (if falsy a then b else a)"

section \<open>AdapterEndpoint\<close>

definition DEFAULT_TRANSPORT_NAME :: string where
  "DEFAULT_TRANSPORT_NAME = ''default_single_transport''"

text \<open>The regular expression \<^verbatim>\<open>/^[a-z]+$/\<close>: one or more characters, each of
  them between \<^verbatim>\<open>a\<close> (97) and \<^verbatim>\<open>z\<close> (122).\<close>

definition lowercaseLetter :: "char \<Rightarrow> bool" where
  "lowercaseLetter c = (97 \<le> (of_char c :: nat) \<and> (of_char c :: nat) \<le> 122)"

definition validTransportName :: "string \<Rightarrow> bool" where
  "validTransportName transportName =
     (transportName \<noteq> [] \<and> list_all lowercaseLetter transportName)"

text \<open>\<^verbatim>\<open>String.prototype.toLowerCase\<close> on ASCII text: the letters \<^verbatim>\<open>A\<close> to \<^verbatim>\<open>Z\<close>
  are folded, every other byte is left as it is. Strings are byte strings here,
  and the model of the routing speaks about transport names in ASCII only (the
  runtime also folds letters outside ASCII).\<close>

definition toLowerCase :: "string \<Rightarrow> string" where
  "toLowerCase s =
     map (\<lambda>c. if 65 \<le> (of_char c :: nat) \<and> (of_char c :: nat) \<le> 90
              then char_of ((of_char c :: nat) + 32) else c) s"

text \<open>
  The \<^verbatim>\<open>transports\<close> field is a plain JavaScript object
  (\<^verbatim>\<open>Record<string, Transport<T>>\<close>): its own properties are an association list
  in insertion order, keys distinct. A property read \<^verbatim>\<open>obj[key]\<close> answers an own
  property when there is one, and otherwise walks the prototype chain, which for
  an object literal is \<^verbatim>\<open>Object.prototype\<close>. The properties of \<^verbatim>\<open>Object.prototype\<close>
  are all functions or objects, hence truthy.
\<close>

definition Object_prototype_properties :: "string list" where
  "Object_prototype_properties =
     [''constructor'', ''__defineGetter__'', ''__defineSetter__'', ''hasOwnProperty'',
      ''__lookupGetter__'', ''__lookupSetter__'', ''isPrototypeOf'',
      ''propertyIsEnumerable'', ''toString'', ''valueOf'', ''__proto__'',
      ''toLocaleString'']"

datatype 't property = Own 't | Inherited | Undefined

definition getProperty :: "(string \<times> 't) list \<Rightarrow> string \<Rightarrow> 't property" where
  "getProperty obj key =
     (case map_of obj key of
        Some t \<Rightarrow> Own t
      | None \<Rightarrow> if key \<in> set Object_prototype_properties then Inherited else Undefined)"

text \<open>Transport objects are truthy, and so is every inherited property.\<close>

definition truthy :: "'t property \<Rightarrow> bool" where
  "truthy p = (p \<noteq> Undefined)"

text \<open>\<^verbatim>\<open>Object.keys(obj)\<close>: the own enumerable keys.\<close>

definition Object_keys :: "(string \<times> 't) list \<Rightarrow> string list" where
  "Object_keys obj = map fst obj"

text \<open>The request: only \<^verbatim>\<open>req.body.data?.transport\<close> is read by the default
  router; everything else of the request is the record's extension, visible
  to a custom router.\<close>

record AdapterRequest =
  body_data_transport :: "string option"

text \<open>\<^verbatim>\<open>AdapterEndpointParams\<close> is a union: either a single \<^verbatim>\<open>transport\<close>, or a
  \<^verbatim>\<open>transports\<close> map with optional \<^verbatim>\<open>customRouter\<close> and \<^verbatim>\<open>defaultTransport\<close>.
  The custom router receives the request (the adapter configuration is fixed).
  The fields that play no part in routing (name, aliases, input parameters,
  overrides, request transforms) are left out.\<close>

datatype ('t, 'r) AdapterEndpointParams =
    SingleTransport 't
  | MultiTransport "(string \<times> 't) list" "('r AdapterRequest_scheme \<Rightarrow> string) option"
      "string option"

record ('t, 'r) AdapterEndpoint =
  transports :: "(string \<times> 't) list"
  customRouter :: "('r AdapterRequest_scheme \<Rightarrow> string) option"
  defaultTransport :: "string option"

text \<open>The constructor. The loop \<^verbatim>\<open>for (const transportName in this.transports)\<close>
  throws at the first name that fails the regular expression, so it throws
  exactly when some name fails it (the message text is not modelled).\<close>

fun AdapterEndpoint_constructor ::
  "('t, 'r) AdapterEndpointParams \<Rightarrow> js_error + ('t, 'r) AdapterEndpoint" where
  "AdapterEndpoint_constructor (MultiTransport ts router dflt) =
     (if list_all validTransportName (Object_keys ts)
      then Inr \<lparr>transports = ts, customRouter = router, defaultTransport = dflt\<rparr>
      else Inl (Error ''Transport name is invalid''))"
| "AdapterEndpoint_constructor (SingleTransport t) =
     Inr \<lparr>transports = [(DEFAULT_TRANSPORT_NAME, t)], customRouter = None,
          defaultTransport = None\<rparr>"

definition defaultRouter :: "'r AdapterRequest_scheme \<Rightarrow> string option" where
  "defaultRouter req = body_data_transport req"

text \<open>The routed name before normalisation: the custom router's answer, else
  the request's \<^verbatim>\<open>data.transport\<close>, else the default transport.\<close>

definition rawTransportName ::
  "('t, 'r) AdapterEndpoint \<Rightarrow> 'r AdapterRequest_scheme \<Rightarrow> string option" where
  "rawTransportName ep req =
     js_or (js_or (case customRouter ep of None \<Rightarrow> None | Some router \<Rightarrow> Some (router req))
                  (defaultRouter req))
           (defaultTransport ep)"

definition getTransportNameForRequest ::
  "('t, 'r) AdapterEndpoint \<Rightarrow> 'r AdapterRequest_scheme \<Rightarrow> js_error + string" where
  "getTransportNameForRequest ep req =
     (if truthy (getProperty (transports ep) DEFAULT_TRANSPORT_NAME)
      then Inr DEFAULT_TRANSPORT_NAME
      else if falsy (rawTransportName ep req)
      then Inl (AdapterError 400 NoTransportResolved)
      else
        let transportName = toLowerCase (the (rawTransportName ep req))
        in if \<not> truthy (getProperty (transports ep) transportName)
           then Inl (AdapterError 400 (NoTransportFound transportName))
           else Inr transportName)"

section \<open>CacheFactory\<close>

text \<open>The two cache classes are not part of the modelled files; an instance is
  a tag, the Redis cache carrying its client. \<^verbatim>\<open>buildCache\<close> is a \<^verbatim>\<open>switch\<close>
  without a \<^verbatim>\<open>default\<close> branch: for any other string the function falls off its
  end and returns \<^verbatim>\<open>undefined\<close> (\<open>None\<close>).\<close>

datatype 'c cache = LocalCache | RedisCache 'c

definition buildCache :: "string \<Rightarrow> 'c option \<Rightarrow> js_error + 'c cache option" where
  "buildCache cacheType redisClient =
     (if cacheType = ''local'' then Inr (Some LocalCache)
      else if cacheType = ''redis'' then
        (case redisClient of
           None \<Rightarrow> Inl (Error ''Redis client undefined. Cannot create Redis cache'')
         | Some client \<Rightarrow> Inr (Some (RedisCache client)))
      else Inr None)"

section \<open>RedisSubscriptionSet\<close>

text \<open>
  The Redis client is an external service. Only the sorted set stored under
  \<^verbatim>\<open>subscriptionSetKey\<close> is touched, so the state of the store is that sorted set:
  a list of (member, score) pairs, members distinct, kept in the order in which
  Redis iterates a sorted set (by score, equal scores by member). The three
  commands used by the class follow the Redis command reference:
  \<^item> \<^verbatim>\<open>ZADD key score member\<close> adds the member, or moves it to the new score when
    it is already there;
  \<^item> \<^verbatim>\<open>ZREMRANGEBYSCORE key -inf max\<close> removes every member whose score is at most
    \<open>max\<close> (both ends of the interval are inclusive unless written with an
    opening parenthesis, which the source does not do);
  \<^item> \<^verbatim>\<open>ZRANGE key 0 -1\<close> returns all members in order.
  Scores and times are integers (milliseconds).
\<close>

type_synonym sorted_set = "(string \<times> int) list"

definition zadd :: "sorted_set \<Rightarrow> int \<Rightarrow> string \<Rightarrow> sorted_set" where
  "zadd z score member =
     insort_key (\<lambda>(m, s). (s, m)) (member, score) (filter (\<lambda>(m, s). m \<noteq> member) z)"

definition zremrangebyscore_from_neg_inf :: "sorted_set \<Rightarrow> int \<Rightarrow> sorted_set" where
  "zremrangebyscore_from_neg_inf z max_score = filter (\<lambda>(m, s). \<not> s \<le> max_score) z"

definition zrange_all :: "sorted_set \<Rightarrow> string list" where
  "zrange_all z = map fst z"

definition DELIMITER :: char where
  "DELIMITER = CHR ''>''"

text \<open>\<^verbatim>\<open>String.prototype.split\<close> with a one-character separator: the pieces between
  the occurrences of the separator, all of them (the result is never empty).\<close>

fun js_split :: "char \<Rightarrow> string \<Rightarrow> string list" where
  "js_split d [] = [[]]"
| "js_split d (c # cs) =
     (if c = d then [] # js_split d cs
      else (c # hd (js_split d cs)) # tl (js_split d cs))"

text \<open>Reading an array at an index: \<^verbatim>\<open>undefined\<close> (\<open>None\<close>) out of range.\<close>

definition js_index :: "'a list \<Rightarrow> nat \<Rightarrow> 'a option" where
  "js_index xs i = (if i < length xs then Some (xs ! i) else None)"

text \<open>
  \<^verbatim>\<open>JSON.stringify\<close> and \<^verbatim>\<open>JSON.parse\<close> belong to the language runtime and are
  parameters of the model: \<open>JSON_stringify\<close> gives the text that the template
  literal interpolates, \<open>JSON_parse\<close> answers \<open>None\<close> where the runtime throws a
  \<^verbatim>\<open>SyntaxError\<close>. \<^verbatim>\<open>Date.now()\<close> is the argument \<open>now\<close>.
\<close>

definition storedValue :: "('v \<Rightarrow> string) \<Rightarrow> string \<Rightarrow> 'v \<Rightarrow> string" where
  "storedValue JSON_stringify key v = key @ [DELIMITER] @ JSON_stringify v"

definition RedisSubscriptionSet_add ::
  "('v \<Rightarrow> string) \<Rightarrow> string \<Rightarrow> 'v \<Rightarrow> int \<Rightarrow> int \<Rightarrow> sorted_set \<Rightarrow> sorted_set" where
  "RedisSubscriptionSet_add JSON_stringify key v ttl now z =
     zadd z (now + ttl) (storedValue JSON_stringify key v)"

text \<open>One step of the \<^verbatim>\<open>forEach\<close> body: \<^verbatim>\<open>JSON.parse(entry.split(DELIMITER)[1])\<close>.
  When the entry holds no delimiter the index is out of range, and
  \<^verbatim>\<open>JSON.parse(undefined)\<close> parses the text \<^verbatim>\<open>undefined\<close>.\<close>

definition parseEntry :: "(string \<Rightarrow> 'v option) \<Rightarrow> string \<Rightarrow> 'v option" where
  "parseEntry JSON_parse entry =
     (case js_index (js_split DELIMITER entry) 1 of
        None \<Rightarrow> JSON_parse ''undefined''
      | Some text \<Rightarrow> JSON_parse text)"

text \<open>The \<^verbatim>\<open>forEach\<close> loop, pushing onto \<^verbatim>\<open>parsedRequests\<close>; it stops at the first
  entry on which \<^verbatim>\<open>JSON.parse\<close> throws.\<close>

fun parseEntries :: "(string \<Rightarrow> 'v option) \<Rightarrow> string list \<Rightarrow> js_error + 'v list" where
  "parseEntries JSON_parse [] = Inr []"
| "parseEntries JSON_parse (entry # entries) =
     (case parseEntry JSON_parse entry of
        None \<Rightarrow> Inl SyntaxError
      | Some v \<Rightarrow>
          (case parseEntries JSON_parse entries of
             Inl e \<Rightarrow> Inl e
           | Inr vs \<Rightarrow> Inr (v # vs)))"

text \<open>\<^verbatim>\<open>getAll\<close> returns the store after the removal together with the result.\<close>

definition RedisSubscriptionSet_getAll ::
  "(string \<Rightarrow> 'v option) \<Rightarrow> int \<Rightarrow> sorted_set \<Rightarrow> sorted_set \<times> (js_error + 'v list)" where
  "RedisSubscriptionSet_getAll JSON_parse now z =
     (let z' = zremrangebyscore_from_neg_inf z now;
          validEntries = zrange_all z'
      in (z', parseEntries JSON_parse validEntries))"

text \<open>A concrete instance of the two runtime functions for the closed examples
  below: values are integers, whose JSON text is the decimal numeral. Any text
  that is not such a numeral is rejected.\<close>

definition digit_char :: "nat \<Rightarrow> char" where
  "digit_char d = char_of (48 + d)"

fun show_nat :: "nat \<Rightarrow> string" where
  "show_nat n = (if n < 10 then [digit_char n] else show_nat (n div 10) @ [digit_char (n mod 10)])"

definition int_stringify :: "int \<Rightarrow> string" where
  "int_stringify i = (if i < 0 then CHR ''-'' # show_nat (nat (- i)) else show_nat (nat i))"

definition is_digit :: "char \<Rightarrow> bool" where
  "is_digit c = (48 \<le> (of_char c :: nat) \<and> (of_char c :: nat) \<le> 57)"

definition read_nat :: "string \<Rightarrow> nat option" where
  "read_nat s =
     (if s = [] \<or> \<not> list_all is_digit s \<or> (hd s = CHR ''0'' \<and> length s > 1) then None
      else Some (foldl (\<lambda>acc c. 10 * acc + ((of_char c :: nat) - 48)) 0 s))"

definition int_parse :: "string \<Rightarrow> int option" where
  "int_parse s =
     (case s of
        [] \<Rightarrow> None
      | c # cs \<Rightarrow>
          if c = CHR ''-'' then map_option (\<lambda>n. - int n) (read_nat cs)
          else map_option int (read_nat s))"

section \<open>WebSocketTransport\<close>

text \<open>
  The socket is an external object; of it the transport reads only
  \<^verbatim>\<open>readyState\<close>. The field \<^verbatim>\<open>wsConnection\<close> is \<^verbatim>\<open>undefined\<close> (\<open>None\<close>) until the
  first connection is made. Subscription parameters and outgoing payloads are
  JavaScript values of one type \<open>'v\<close>.
\<close>

datatype readyState = CONNECTING | OPEN | CLOSING | CLOSED

record 'v WebSocketTransport =
  wsConnection :: "readyState option"
  currentUrl :: string
  lastMessageReceivedAt :: int
  connectionOpenedAt :: int
  providerDataStreamEstablished :: int
  desiredSubscriptions :: "'v list"

record 'v SubscriptionDeltas =
  new :: "'v list"
  stale :: "'v list"
  desired :: "'v list"

text \<open>A provider result as the user's message handler returns it
  (\<open>indicatedTime\<close> is \<^verbatim>\<open>response.timestamps?.providerIndicatedTime\<close>), and as it is
  handed to the response cache after the handler of the transport has replaced
  \<^verbatim>\<open>response.timestamps\<close>.\<close>

record ('v, 'd) ProviderResult =
  params :: 'v
  response :: 'd
  indicatedTime :: "int option"

record ResponseTimestamps =
  stampStreamEstablished :: int     \<comment> \<open>\<^verbatim>\<open>timestamps.providerDataStreamEstablished\<close>\<close>
  stampDataReceived :: int          \<comment> \<open>\<^verbatim>\<open>timestamps.providerDataReceived\<close>\<close>
  stampIndicatedTime :: "int option" \<comment> \<open>\<^verbatim>\<open>timestamps.providerIndicatedTime\<close>\<close>

record ('v, 'd) TimestampedProviderResult =
  resultParams :: 'v
  resultResponse :: 'd
  timestamps :: ResponseTimestamps

text \<open>Calls on the external objects, in program order: on the socket that
  \<^verbatim>\<open>wsConnection\<close> holds at that moment (\<^verbatim>\<open>close()\<close>, \<^verbatim>\<open>send(message)\<close>), the
  construction of a new socket for a URL, and \<^verbatim>\<open>responseCache.write(results)\<close>.\<close>

datatype ('v, 'd) effect =
    SocketClose
  | SocketNew string
  | SocketSend string
  | CacheWrite "('v, 'd) TimestampedProviderResult list"

text \<open>The configuration object. \<^verbatim>\<open>url\<close> is applied to the desired subscriptions
  (the context is fixed) and either throws or returns the URL; the optional
  \<^verbatim>\<open>options\<close> callback either throws or returns the client options, which only
  reach the constructor of the socket and are not modelled further;
  \<^verbatim>\<open>handlers.message\<close> either throws or returns an array of results or
  \<^verbatim>\<open>undefined\<close>; \<^verbatim>\<open>builders\<close> and each of its two members are optional. What the
  optional \<^verbatim>\<open>handlers.open\<close> does shows in how the connection attempt settles.\<close>

record 'v builders =
  subscribeMessage :: "('v \<Rightarrow> 'v) option"
  unsubscribeMessage :: "('v \<Rightarrow> 'v) option"

record ('v, 'w, 'd) WebSocketTransportConfig =
  url :: "'v list \<Rightarrow> js_error + string"
  options :: "(js_error + unit) option"
  message :: "'w \<Rightarrow> 'v list \<Rightarrow> js_error + ('v, 'd) ProviderResult list option"
  builders :: "'v builders option"

text \<open>\<^verbatim>\<open>this.config.options && (await this.config.options(context))\<close> throws
  exactly when there is an options callback and it throws.\<close>

definition optionsRejected :: "('v, 'w, 'd) WebSocketTransportConfig \<Rightarrow> bool" where
  "optionsRejected config = (case options config of Some (Inl e) \<Rightarrow> True | _ \<Rightarrow> False)"

definition connectionClosed :: "'v WebSocketTransport \<Rightarrow> bool" where
  "connectionClosed st = (wsConnection st = None \<or> wsConnection st = Some CLOSED)"

text \<open>\<^verbatim>\<open>serializeMessage\<close>: a payload that is a string is sent as it is, any other
  payload as its JSON text. Whether a value is a string (and which) and its JSON
  text are given by the runtime.\<close>

definition serializeMessage :: "('v \<Rightarrow> string option) \<Rightarrow> ('v \<Rightarrow> string) \<Rightarrow> 'v \<Rightarrow> string" where
  "serializeMessage asString JSON_stringify payload =
     (case asString payload of Some s \<Rightarrow> s | None \<Rightarrow> JSON_stringify payload)"

text \<open>\<^verbatim>\<open>sendMessages\<close>: the serialized subscribes, then the serialized
  unsubscribes, each passed to \<^verbatim>\<open>this.wsConnection.send\<close>. The serializer is the
  method \<^verbatim>\<open>this.serializeMessage\<close>, which a subclass may override. When no socket
  has been created, the first pass through the loop throws a \<^verbatim>\<open>TypeError\<close>
  (\<^verbatim>\<open>send\<close> of \<^verbatim>\<open>undefined\<close>); without messages the loop body never runs. An
  existing socket is taken to accept the call.\<close>

definition sendMessages ::
  "readyState option \<Rightarrow> ('v \<Rightarrow> string) \<Rightarrow> 'v list \<Rightarrow> 'v list \<Rightarrow> js_error + ('v, 'd) effect list" where
  "sendMessages ws serialize subscribes unsubscribes =
     (let serializedSubscribes = map serialize subscribes;
          serializedUnsubscribes = map serialize unsubscribes;
          messages = serializedSubscribes @ serializedUnsubscribes
      in if ws = None \<and> messages \<noteq> [] then Inl TypeError
         else Inr (map SocketSend messages))"

text \<open>
  What the environment contributes to one tick: the three readings of the clock
  (\<open>now\<close> before the staleness check, \<open>streamEstablishedAt\<close> just before the
  connection is attempted, \<open>openedAt\<close> after it has been established), and how
  the promise of \<^verbatim>\<open>establishWsConnection\<close> settles: resolved by the \<^verbatim>\<open>open\<close> event,
  rejected because a handler threw, or never settled (a socket that fails to
  connect only logs its error), in which case the tick does not return.
\<close>

datatype establishment = Resolved | Rejected | NeverSettled

record tick_env =
  now :: int
  streamEstablishedAt :: int
  established :: establishment
  openedAt :: int

datatype tick_outcome = Returned | Threw | Suspended

record ('v, 'd) tick =
  effects :: "('v, 'd) effect list"
  outcome :: tick_outcome
  transport :: "'v WebSocketTransport"
  subscriptions :: "'v SubscriptionDeltas"

text \<open>The subscribe and unsubscribe payloads of a tick: built by the builders
  where they are given, the bare parameters otherwise.\<close>

definition subscribePayloads :: "'v builders \<Rightarrow> 'v SubscriptionDeltas \<Rightarrow> 'v list" where
  "subscribePayloads b subs =
     (case subscribeMessage b of Some f \<Rightarrow> map f (new subs) | None \<Rightarrow> new subs)"

definition unsubscribePayloads :: "'v builders \<Rightarrow> 'v SubscriptionDeltas \<Rightarrow> 'v list" where
  "unsubscribePayloads b subs =
     (case unsubscribeMessage b of Some f \<Rightarrow> map f (stale subs) | None \<Rightarrow> stale subs)"

text \<open>The end of \<^verbatim>\<open>streamHandler\<close>: \<^verbatim>\<open>if (this.config.builders)\<close> the messages are
  sent, and the tick returns (or throws what \<^verbatim>\<open>sendMessages\<close> throws). \<open>es\<close> are
  the effects of the tick so far.\<close>

definition sendPhase ::
  "'v builders option \<Rightarrow> readyState option \<Rightarrow> ('v \<Rightarrow> string) \<Rightarrow> 'v SubscriptionDeltas \<Rightarrow>
   js_error + ('v, 'd) effect list" where
  "sendPhase bs ws serialize subs =
     (case bs of
        None \<Rightarrow> Inr []
      | Some b \<Rightarrow>
          sendMessages ws serialize (subscribePayloads b subs) (unsubscribePayloads b subs))"

definition sendAndReturn ::
  "('v, 'w, 'd) WebSocketTransportConfig \<Rightarrow> ('v \<Rightarrow> string) \<Rightarrow> ('v, 'd) effect list \<Rightarrow>
   'v WebSocketTransport \<Rightarrow> 'v SubscriptionDeltas \<Rightarrow> ('v, 'd) tick" where
  "sendAndReturn config serialize es st subs =
     (case sendPhase (builders config) (wsConnection st) serialize subs of
        Inl e \<Rightarrow> \<lparr>effects = es, outcome = Threw, transport = st, subscriptions = subs\<rparr>
      | Inr sends \<Rightarrow>
          \<lparr>effects = es @ sends, outcome = Returned, transport = st, subscriptions = subs\<rparr>)"

text \<open>The staleness test of \<^verbatim>\<open>streamHandler\<close>: \<open>t\<close> is the reading \<^verbatim>\<open>now\<close> of the
  clock and \<open>ttl\<close> is \<^verbatim>\<open>context.adapterConfig.WS_SUBSCRIPTION_UNRESPONSIVE_TTL\<close>.\<close>

definition timeSinceLastActivity :: "int \<Rightarrow> 'v WebSocketTransport \<Rightarrow> int" where
  "timeSinceLastActivity t st =
     (let timeSinceLastMessage = max 0 (t - lastMessageReceivedAt st);
          timeSinceConnectionOpened = max 0 (t - connectionOpenedAt st)
      in min timeSinceLastMessage timeSinceConnectionOpened)"

definition connectionUnresponsive :: "int \<Rightarrow> int \<Rightarrow> 'v WebSocketTransport \<Rightarrow> bool" where
  "connectionUnresponsive ttl t st =
     (timeSinceLastActivity t st > 0 \<and> timeSinceLastActivity t st > ttl)"

text \<open>\<^verbatim>\<open>streamHandler\<close>. The argument object \<^verbatim>\<open>subscriptions\<close> is mutated by the
  source and therefore returned. The tick throws, with what it has done so far,
  when \<^verbatim>\<open>config.url\<close> throws (before anything is closed), when \<^verbatim>\<open>config.options\<close>
  throws (after the close, before \<^verbatim>\<open>currentUrl\<close> is set and the socket is
  constructed), when the connection attempt is rejected, and when a message is
  to be sent without a socket. Logging, metrics and the final sleep are left
  out.\<close>

definition streamHandler ::
  "('v, 'w, 'd) WebSocketTransportConfig \<Rightarrow> ('v \<Rightarrow> string) \<Rightarrow> int \<Rightarrow> tick_env \<Rightarrow>
   'v SubscriptionDeltas \<Rightarrow> 'v WebSocketTransport \<Rightarrow> ('v, 'd) tick" where
  "streamHandler config serialize ttl env subs0 st0 =
     (let st1 = st0\<lparr>desiredSubscriptions := desired subs0\<rparr> in
      if new subs0 = [] \<and> wsConnection st1 = None
      then \<lparr>effects = [], outcome = Returned, transport = st1, subscriptions = subs0\<rparr>
      else
        case url config (desiredSubscriptions st1) of
          Inl e \<Rightarrow> \<lparr>effects = [], outcome = Threw, transport = st1, subscriptions = subs0\<rparr>
        | Inr urlFromConfig \<Rightarrow>
            let urlChanged = (currentUrl st1 \<noteq> urlFromConfig);
                closing = (\<not> connectionClosed st1
                           \<and> (urlChanged \<or> connectionUnresponsive ttl (now env) st1));
                closeEffects = (if closing then [SocketClose] else []);
                st2 = (if closing then st1\<lparr>wsConnection := Some CLOSING\<rparr> else st1);
                connectionIsClosed = (closing \<or> connectionClosed st1);
                subs1 = (if closing then subs0\<lparr>new := desiredSubscriptions st1\<rparr> else subs0)
            in
              if connectionIsClosed \<and> desiredSubscriptions st1 \<noteq> []
              then
                if optionsRejected config
                then \<lparr>effects = closeEffects, outcome = Threw, transport = st2,
                      subscriptions = subs1\<rparr>
                else
                  let st3 = st2\<lparr>currentUrl := urlFromConfig,
                                providerDataStreamEstablished := streamEstablishedAt env,
                                wsConnection := Some CONNECTING\<rparr>;
                      openEffects = closeEffects @ [SocketNew urlFromConfig]
                  in (case established env of
                        NeverSettled \<Rightarrow>
                          \<lparr>effects = openEffects, outcome = Suspended, transport = st3,
                           subscriptions = subs1\<rparr>
                      | Rejected \<Rightarrow>
                          \<lparr>effects = openEffects, outcome = Threw,
                           transport = st3\<lparr>wsConnection := Some OPEN\<rparr>, subscriptions = subs1\<rparr>
                      | Resolved \<Rightarrow>
                          sendAndReturn config serialize openEffects
                            (st3\<lparr>wsConnection := Some OPEN, connectionOpenedAt := openedAt env\<rparr>)
                            subs1)
              else sendAndReturn config serialize closeEffects st2 subs1)"

text \<open>The handler of the \<^verbatim>\<open>message\<close> event. \<open>deserializeMessage\<close> is
  \<^verbatim>\<open>JSON.parse(data.toString())\<close> (\<open>None\<close> where it throws), \<open>received\<close> and
  \<open>written\<close> are the two readings of the clock. A thrown error is caught by the
  rejection handler that wraps this handler; it leaves the transport as it was.
  \<^verbatim>\<open>Array.isArray(results)\<close> holds exactly when the user's handler returned an
  array, of any length.\<close>

definition stampResult ::
  "int \<Rightarrow> int \<Rightarrow> ('v, 'd) ProviderResult \<Rightarrow> ('v, 'd) TimestampedProviderResult" where
  "stampResult streamEstablished providerDataReceived r =
     \<lparr>resultParams = params r, resultResponse = response r,
      timestamps = \<lparr>stampStreamEstablished = streamEstablished,
                    stampDataReceived = providerDataReceived,
                    stampIndicatedTime = indicatedTime r\<rparr>\<rparr>"

definition messageHandler ::
  "('v, 'w, 'd) WebSocketTransportConfig \<Rightarrow> (string \<Rightarrow> 'w option) \<Rightarrow> string \<Rightarrow> int \<Rightarrow> int \<Rightarrow>
   'v WebSocketTransport \<Rightarrow> (js_error + ('v, 'd) effect list) \<times> 'v WebSocketTransport" where
  "messageHandler config deserializeMessage data received written st =
     (case deserializeMessage data of
        None \<Rightarrow> (Inl SyntaxError, st)
      | Some parsed \<Rightarrow>
          (case message config parsed (desiredSubscriptions st) of
             Inl e \<Rightarrow> (Inl e, st)
           | Inr None \<Rightarrow> (Inr [], st)
           | Inr (Some rs) \<Rightarrow>
               (Inr [CacheWrite (map (stampResult (providerDataStreamEstablished st) received) rs)],
                st\<lparr>lastMessageReceivedAt := written\<rparr>)))"

text \<open>The results that a run of the message handler wrote to the response
  cache.\<close>

fun writtenResults :: "('v, 'd) effect list \<Rightarrow> ('v, 'd) TimestampedProviderResult list" where
  "writtenResults [] = []"
| "writtenResults (CacheWrite rs # es) = rs @ writtenResults es"
| "writtenResults (_ # es) = writtenResults es"

text \<open>Reading a trace of effects: no \<^verbatim>\<open>send\<close> is called before the first
  \<^verbatim>\<open>close\<close> (a trace without any \<^verbatim>\<open>send\<close> qualifies); and whether an effect is
  the construction of a socket.\<close>

fun noSendBeforeClose :: "('v, 'd) effect list \<Rightarrow> bool" where
  "noSendBeforeClose [] = True"
| "noSendBeforeClose (SocketClose # es) = True"
| "noSendBeforeClose (SocketSend m # es) = False"
| "noSendBeforeClose (e # es) = noSendBeforeClose es"

fun isNew :: "('v, 'd) effect \<Rightarrow> bool" where
  "isNew (SocketNew u) = True"
| "isNew e = False"

text \<open>A freshly constructed transport (the field initialisers of the class;
  \<^verbatim>\<open>providerDataStreamEstablished\<close> is declared in the streaming base class and
  taken as given).\<close>

definition newTransport :: "int \<Rightarrow> 'v WebSocketTransport" where
  "newTransport established0 =
     \<lparr>wsConnection = None, currentUrl = [], lastMessageReceivedAt = 0,
      connectionOpenedAt = 0, providerDataStreamEstablished = established0,
      desiredSubscriptions = []\<rparr>"

section \<open>Properties of AdapterEndpoint\<close>

lemma DEFAULT_TRANSPORT_NAME_invalid: "\<not> validTransportName DEFAULT_TRANSPORT_NAME"
  by (simp add: validTransportName_def DEFAULT_TRANSPORT_NAME_def lowercaseLetter_def)

lemma DEFAULT_TRANSPORT_NAME_not_inherited:
  "DEFAULT_TRANSPORT_NAME \<notin> set Object_prototype_properties"
  by (simp add: DEFAULT_TRANSPORT_NAME_def Object_prototype_properties_def)

text \<open>
  \<^bold>\<open>Claim C10.\<close> An endpoint constructed from a single \<^verbatim>\<open>transport\<close> parameter is
  always built, and its transports record has exactly one key, the fixed name
  \<^verbatim>\<open>default_single_transport\<close>. The lowercase-letters check is not applied on that
  branch: the fixed name itself fails the check, and an explicit \<^verbatim>\<open>transports\<close>
  map that uses the same name as a key is rejected by the constructor.
\<close>

theorem single_transport_name_not_validated:
  "(\<exists>ep. AdapterEndpoint_constructor (SingleTransport t) = Inr ep
        \<and> Object_keys (transports ep) = [DEFAULT_TRANSPORT_NAME])
   \<and> \<not> validTransportName DEFAULT_TRANSPORT_NAME
   \<and> isl (AdapterEndpoint_constructor (MultiTransport [(DEFAULT_TRANSPORT_NAME, t)] router dflt))"
  by (simp add: Object_keys_def DEFAULT_TRANSPORT_NAME_invalid)

text \<open>The same at a concrete transport, with the name written out.\<close>

theorem single_transport_name_not_validated_witness:
  "(\<exists>ep. AdapterEndpoint_constructor (SingleTransport (0::nat)) = Inr (ep :: (nat, unit) AdapterEndpoint)
        \<and> Object_keys (transports ep) = [''default_single_transport''])
   \<and> \<not> validTransportName ''default_single_transport''
   \<and> isl (AdapterEndpoint_constructor
            (MultiTransport [(''default_single_transport'', 0::nat)]
               (None :: (unit AdapterRequest_scheme \<Rightarrow> string) option) None))"
  using single_transport_name_not_validated [of "0::nat" None None]
  by (simp add: DEFAULT_TRANSPORT_NAME_def)

text \<open>Routing. With a single transport the fixed name is returned at once; with
  a transports map the routed name is looked up by a property read, which also
  finds what the object inherits.\<close>

lemma routing_single_transport:
  "AdapterEndpoint_constructor (SingleTransport t) = Inr ep \<Longrightarrow>
   getTransportNameForRequest ep req = Inr DEFAULT_TRANSPORT_NAME"
  by (auto simp: getTransportNameForRequest_def getProperty_def truthy_def)

lemma multi_transport_no_default_key:
  assumes "AdapterEndpoint_constructor (MultiTransport ts router dflt) = Inr ep"
  shows "\<not> truthy (getProperty (transports ep) DEFAULT_TRANSPORT_NAME)"
proof -
  from assms have valid: "list_all validTransportName (map fst ts)" and ep: "transports ep = ts"
    by (auto simp: Object_keys_def split: if_splits)
  have "DEFAULT_TRANSPORT_NAME \<notin> fst ` set ts"
    using valid DEFAULT_TRANSPORT_NAME_invalid by (auto simp: list_all_iff)
  then have "map_of ts DEFAULT_TRANSPORT_NAME = None"
    by (simp add: map_of_eq_None_iff)
  then show ?thesis
    using ep DEFAULT_TRANSPORT_NAME_not_inherited
    by (simp add: getProperty_def truthy_def)
qed

lemma routing_multi_transport:
  assumes "AdapterEndpoint_constructor (MultiTransport ts router dflt) = Inr ep"
  shows "getTransportNameForRequest ep req =
     (if falsy (rawTransportName ep req) then Inl (AdapterError 400 NoTransportResolved)
      else if toLowerCase (the (rawTransportName ep req)) \<in> set (Object_keys ts)
                \<or> toLowerCase (the (rawTransportName ep req)) \<in> set Object_prototype_properties
           then Inr (toLowerCase (the (rawTransportName ep req)))
           else Inl (AdapterError 400 (NoTransportFound (toLowerCase (the (rawTransportName ep req))))))"
proof -
  from assms have ep: "transports ep = ts" by (auto split: if_splits)
  have own: "truthy (getProperty ts k) \<longleftrightarrow> k \<in> set (Object_keys ts) \<or> k \<in> set Object_prototype_properties" for k
  proof (cases "map_of ts k")
    case None
    then have "k \<notin> fst ` set ts" by (simp add: map_of_eq_None_iff)
    with None show ?thesis by (simp add: getProperty_def truthy_def Object_keys_def)
  next
    case (Some t)
    then have "(k, t) \<in> set ts" by (rule map_of_SomeD)
    then have "k \<in> fst ` set ts" by force
    with Some show ?thesis by (simp add: getProperty_def truthy_def Object_keys_def)
  qed
  show ?thesis
    using multi_transport_no_default_key [OF assms] own
    by (simp add: getTransportNameForRequest_def rawTransportName_def Let_def ep)
qed

text \<open>
  \<^bold>\<open>Claim C7.\<close> The claim says that a resolved name absent from the transports map
  raises an error with status code 400. Evaluated on an endpoint with the
  transports \<^verbatim>\<open>ws\<close> and \<^verbatim>\<open>rest\<close> and a request whose \<^verbatim>\<open>data.transport\<close> is
  \<^verbatim>\<open>constructor\<close>: the endpoint is constructed, the name is not a key of the map,
  and yet \<^verbatim>\<open>getTransportNameForRequest\<close> returns it instead of raising, because
  the property read \<^verbatim>\<open>this.transports[transportName]\<close> finds the inherited
  \<^verbatim>\<open>Object.prototype.constructor\<close>.
\<close>

theorem routing_inherited_property_not_rejected:
  "AdapterEndpoint_constructor
     (MultiTransport [(''ws'', 1::nat), (''rest'', 2)]
        (None :: (unit AdapterRequest_scheme \<Rightarrow> string) option) None)
     = Inr \<lparr>transports = [(''ws'', 1), (''rest'', 2)], customRouter = None,
            defaultTransport = None\<rparr>
   \<and> ''constructor'' \<notin> set (Object_keys [(''ws'', 1::nat), (''rest'', 2)])
   \<and> getTransportNameForRequest
       \<lparr>transports = [(''ws'', 1::nat), (''rest'', 2)],
        customRouter = (None :: (unit AdapterRequest_scheme \<Rightarrow> string) option),
        defaultTransport = None\<rparr>
       \<lparr>body_data_transport = Some ''constructor''\<rparr> = Inr ''constructor''"
  by (simp add: Object_keys_def validTransportName_def lowercaseLetter_def
        getTransportNameForRequest_def rawTransportName_def getProperty_def truthy_def DEFAULT_TRANSPORT_NAME_def
        Object_prototype_properties_def js_or_def falsy_def defaultRouter_def toLowerCase_def)

section \<open>Properties of CacheFactory\<close>

text \<open>
  \<^bold>\<open>Claim C8\<close> says that \<^verbatim>\<open>buildCache\<close> raises an error for every string outside
  \<^verbatim>\<open>local\<close> and \<^verbatim>\<open>redis\<close>. It does not: for \<^verbatim>\<open>memcached\<close> nothing is raised and the
  result is \<^verbatim>\<open>undefined\<close>.
\<close>

theorem buildCache_unknown_type_returns_undefined:
  "''memcached'' \<notin> {''local'', ''redis''}
   \<and> buildCache ''memcached'' (None :: unit option) = Inr None"
  by (simp add: buildCache_def)

text \<open>
  \<^bold>\<open>Claim C8, amended.\<close> \<^verbatim>\<open>buildCache\<close> does not validate the discriminator:
  \<^verbatim>\<open>local\<close> yields a local cache, \<^verbatim>\<open>redis\<close> with a client yields a Redis cache,
  \<^verbatim>\<open>redis\<close> without a client raises an error, and every other string yields
  \<^verbatim>\<open>undefined\<close> without any error.
\<close>

theorem buildCache_by_type:
  "buildCache ''local'' redisClient = Inr (Some LocalCache)
   \<and> buildCache ''redis'' (Some client) = Inr (Some (RedisCache client))
   \<and> buildCache ''redis'' None = Inl (Error ''Redis client undefined. Cannot create Redis cache'')
   \<and> (cacheType \<notin> {''local'', ''redis''} \<longrightarrow> buildCache cacheType redisClient = Inr None)"
  by (simp add: buildCache_def)

text \<open>The four cases at concrete arguments.\<close>

theorem buildCache_by_type_witness:
  "buildCache ''local'' (None :: unit option) = Inr (Some LocalCache)
   \<and> buildCache ''redis'' (Some ()) = Inr (Some (RedisCache ()))
   \<and> buildCache ''redis'' (None :: unit option)
       = Inl (Error ''Redis client undefined. Cannot create Redis cache'')
   \<and> ''memory'' \<notin> {''local'', ''redis''}
   \<and> buildCache ''memory'' (None :: unit option) = Inr None"
  using buildCache_by_type [of "None :: unit option" "()" "''memory''"]
  by simp

section \<open>Properties of RedisSubscriptionSet\<close>

text \<open>Splitting at the delimiter: a text without the delimiter is one piece,
  and the first piece ends at the first delimiter.\<close>

lemma js_split_no_delimiter: "d \<notin> set s \<Longrightarrow> js_split d s = [s]"
  by (induction s) auto

lemma js_split_first_delimiter:
  "d \<notin> set a \<Longrightarrow> js_split d (a @ d # b) = a # js_split d b"
  by (induction a) auto

lemma parseEntry_storedValue:
  assumes "DELIMITER \<notin> set key" and "DELIMITER \<notin> set (JSON_stringify v)"
  shows "parseEntry JSON_parse (storedValue JSON_stringify key v) = JSON_parse (JSON_stringify v)"
  using assms
  by (simp add: parseEntry_def storedValue_def js_split_first_delimiter js_split_no_delimiter
        js_index_def)

text \<open>The members of the sorted set after \<^verbatim>\<open>ZADD\<close>, and the loop of \<^verbatim>\<open>getAll\<close>
  when every entry parses.\<close>

lemma set_zadd:
  "set (zadd z score member) = insert (member, score) {(m, s). (m, s) \<in> set z \<and> m \<noteq> member}"
  by (auto simp: zadd_def set_insort_key)

lemma parseEntries_all_parse:
  "(\<And>e. e \<in> set es \<Longrightarrow> parseEntry JSON_parse e \<noteq> None) \<Longrightarrow>
   parseEntries JSON_parse es = Inr (map (\<lambda>e. the (parseEntry JSON_parse e)) es)"
proof (induction es)
  case Nil
  show ?case by simp
next
  case (Cons entry entries)
  from Cons.prems obtain v where "parseEntry JSON_parse entry = Some v"
    by fastforce
  moreover have "parseEntries JSON_parse entries
                   = Inr (map (\<lambda>e. the (parseEntry JSON_parse e)) entries)"
    using Cons.prems by (intro Cons.IH) simp
  ultimately show ?case by simp
qed

lemma fst_getAll:
  "fst (RedisSubscriptionSet_getAll JSON_parse time z) = filter (\<lambda>(m, s). time < s) z"
proof -
  have "(\<lambda>(m, s). \<not> s \<le> time) = (\<lambda>(m :: string, s). time < s)"
    by (auto simp: fun_eq_iff)
  then show ?thesis
    by (simp add: RedisSubscriptionSet_getAll_def Let_def zremrangebyscore_from_neg_inf_def)
qed

lemma snd_getAll:
  "snd (RedisSubscriptionSet_getAll JSON_parse time z)
     = parseEntries JSON_parse (map fst (filter (\<lambda>(m, s). time < s) z))"
  using fst_getAll [of JSON_parse time z]
  by (simp add: RedisSubscriptionSet_getAll_def Let_def zrange_all_def)

text \<open>
  \<^bold>\<open>Claim C6\<close> says that \<^verbatim>\<open>getAll\<close> removes the members whose score is strictly less
  than the current time, so that an entry whose score equals the current time
  survives and is returned. It does not survive: an entry added at time 0 with
  a ttl of 10 has score 10, and \<^verbatim>\<open>getAll\<close> at time 10 removes it and returns
  nothing.
\<close>

theorem getAll_boundary_entry_removed:
  "RedisSubscriptionSet_getAll int_parse 10
     (RedisSubscriptionSet_add int_stringify ''k'' 1 10 0 []) = ([], Inr [])"
  by code_simp

text \<open>
  \<^bold>\<open>Claim C6, amended.\<close> \<^verbatim>\<open>getAll\<close> first removes exactly the members whose score is
  less than or equal to the current time (those that stay have a score strictly
  greater), so an entry whose score equals the current time is removed; it then
  returns every remaining member decoded, in the order of the sorted set,
  provided each of them parses.
\<close>

theorem getAll_removes_scores_up_to_now:
  "fst (RedisSubscriptionSet_getAll JSON_parse time z) = filter (\<lambda>(m, s). time < s) z
   \<and> (m, time) \<notin> set (fst (RedisSubscriptionSet_getAll JSON_parse time z))
   \<and> ((\<forall>e \<in> set (filter (\<lambda>(m, s). time < s) z). parseEntry JSON_parse (fst e) \<noteq> None) \<longrightarrow>
        snd (RedisSubscriptionSet_getAll JSON_parse time z)
          = Inr (map (\<lambda>e. the (parseEntry JSON_parse (fst e))) (filter (\<lambda>(m, s). time < s) z)))"
proof -
  have "parseEntries JSON_parse (map fst (filter (\<lambda>(m, s). time < s) z))
        = Inr (map (\<lambda>e. the (parseEntry JSON_parse e)) (map fst (filter (\<lambda>(m, s). time < s) z)))"
    if "\<forall>e \<in> set (filter (\<lambda>(m, s). time < s) z). parseEntry JSON_parse (fst e) \<noteq> None"
    using that by (intro parseEntries_all_parse) auto
  then show ?thesis
    by (auto simp: fst_getAll snd_getAll comp_def)
qed

text \<open>Three entries with scores 9, 10 and 11 read at time 10: only the last
  one stays and is returned.\<close>

theorem getAll_removes_scores_up_to_now_witness:
  "fst (RedisSubscriptionSet_getAll int_parse 10 [(''a>1'', 9), (''b>2'', 10), (''c>3'', 11)])
     = [(''c>3'', 11)]
   \<and> (''b>2'', 10) \<notin> set (fst (RedisSubscriptionSet_getAll int_parse 10
                                  [(''a>1'', 9), (''b>2'', 10), (''c>3'', 11)]))
   \<and> snd (RedisSubscriptionSet_getAll int_parse 10 [(''a>1'', 9), (''b>2'', 10), (''c>3'', 11)])
       = Inr [3]"
proof -
  have parse: "parseEntry int_parse ''c>3'' = Some 3"
    by code_simp
  show ?thesis
    using getAll_removes_scores_up_to_now
            [of int_parse 10 "[(''a>1'', 9), (''b>2'', 10), (''c>3'', 11)]" "''b>2''"]
    by (simp add: parse)
qed

text \<open>
  \<^bold>\<open>Claim C5\<close> says that for every key and every value whose JSON text holds no
  \<^verbatim>\<open>>\<close>, \<^verbatim>\<open>getAll\<close> yields the value back. With the key \<^verbatim>\<open>a>2\<close> and the value 1
  (JSON text \<^verbatim>\<open>1\<close>, which parses back to 1) the stored member is \<^verbatim>\<open>a>2>1\<close>, its
  second piece is \<^verbatim>\<open>2\<close>, and \<^verbatim>\<open>getAll\<close> returns 2.
\<close>

theorem add_getAll_key_with_delimiter:
  "DELIMITER \<notin> set (int_stringify 1)
   \<and> int_parse (int_stringify 1) = Some 1
   \<and> RedisSubscriptionSet_getAll int_parse 5
       (RedisSubscriptionSet_add int_stringify ''a>2'' 1 10 0 []) = ([(''a>2>1'', 10)], Inr [2])"
  by code_simp

text \<open>
  \<^bold>\<open>Claim C5, amended.\<close> \<^verbatim>\<open>add(key, value, ttl)\<close> stores the member
  \<^verbatim>\<open>key + '>' + JSON(value)\<close> with score \<open>now + ttl\<close> (and with no other score).
  For every key that holds no \<^verbatim>\<open>>\<close> and every value whose JSON text holds no
  \<^verbatim>\<open>>\<close> and parses back to the value, the decoding of \<^verbatim>\<open>getAll\<close> inverts the
  encoding of \<^verbatim>\<open>add\<close>, and a \<^verbatim>\<open>getAll\<close> before the expiry returns a list that
  holds the value, provided the other live members of the set parse too.
\<close>

theorem add_getAll_roundtrip:
  assumes key: "DELIMITER \<notin> set key"
    and payload: "DELIMITER \<notin> set (JSON_stringify v)"
    and json: "JSON_parse (JSON_stringify v) = Some v"
    and live: "later < time + ttl"
    and others: "\<forall>e \<in> set z. later < snd e \<longrightarrow> parseEntry JSON_parse (fst e) \<noteq> None"
  shows "(storedValue JSON_stringify key v, time + ttl)
           \<in> set (RedisSubscriptionSet_add JSON_stringify key v ttl time z)
       \<and> (\<forall>s. (storedValue JSON_stringify key v, s)
                 \<in> set (RedisSubscriptionSet_add JSON_stringify key v ttl time z) \<longrightarrow> s = time + ttl)
       \<and> parseEntry JSON_parse (storedValue JSON_stringify key v) = Some v
       \<and> (\<exists>vs. snd (RedisSubscriptionSet_getAll JSON_parse later
                      (RedisSubscriptionSet_add JSON_stringify key v ttl time z)) = Inr vs
               \<and> v \<in> set vs)"
proof -
  let ?member = "storedValue JSON_stringify key v"
  let ?z = "RedisSubscriptionSet_add JSON_stringify key v ttl time z"
  let ?live = "filter (\<lambda>(m, s). later < s) ?z"
  have set_z: "set ?z = insert (?member, time + ttl) {(m, s). (m, s) \<in> set z \<and> m \<noteq> ?member}"
    by (simp add: RedisSubscriptionSet_add_def set_zadd)
  have decode: "parseEntry JSON_parse ?member = Some v"
    using key payload json by (simp add: parseEntry_storedValue)
  have all: "parseEntry JSON_parse e \<noteq> None" if "e \<in> set (map fst ?live)" for e
    using that others decode by (auto simp: set_z)
  have result: "snd (RedisSubscriptionSet_getAll JSON_parse later ?z)
        = Inr (map (\<lambda>e. the (parseEntry JSON_parse e)) (map fst ?live))"
    unfolding snd_getAll using all by (rule parseEntries_all_parse)
  have "?member \<in> set (map fst ?live)"
    using live by (force simp: set_z)
  then have "the (parseEntry JSON_parse ?member)
               \<in> set (map (\<lambda>e. the (parseEntry JSON_parse e)) (map fst ?live))"
    by (metis (no_types, lifting) image_eqI list.set_map)
  then have "v \<in> set (map (\<lambda>e. the (parseEntry JSON_parse e)) (map fst ?live))"
    by (simp only: decode option.sel)
  with result decode set_z show ?thesis
    by auto
qed

text \<open>The key \<^verbatim>\<open>k\<close> with the value 7, added at time 0 with a ttl of 10 to a set
  that holds one older entry, and read at time 5.\<close>

theorem add_getAll_roundtrip_witness:
  "(''k>7'', 10) \<in> set (RedisSubscriptionSet_add int_stringify ''k'' 7 10 0 [(''j>3'', 8)])
   \<and> parseEntry int_parse ''k>7'' = Some 7
   \<and> (\<exists>vs. snd (RedisSubscriptionSet_getAll int_parse 5
                  (RedisSubscriptionSet_add int_stringify ''k'' 7 10 0 [(''j>3'', 8)])) = Inr vs
           \<and> 7 \<in> set vs)"
proof -
  have key: "DELIMITER \<notin> set ''k''" by (simp add: DELIMITER_def)
  have payload: "DELIMITER \<notin> set (int_stringify 7)" by code_simp
  have json: "int_parse (int_stringify 7) = Some 7" by code_simp
  have live: "(5::int) < 0 + 10" by simp
  have other: "parseEntry int_parse ''j>3'' \<noteq> None" by code_simp
  have others: "\<forall>e \<in> set [(''j>3'', 8::int)]. 5 < snd e \<longrightarrow> parseEntry int_parse (fst e) \<noteq> None"
    using other by simp
  have stored: "storedValue int_stringify ''k'' 7 = ''k>7''" by code_simp
  show ?thesis
    using add_getAll_roundtrip
            [where key = "''k''" and JSON_stringify = int_stringify and v = 7
               and JSON_parse = int_parse and later = 5 and time = 0 and ttl = 10
               and z = "[(''j>3'', 8)]", OF key payload json live others]
    by (simp add: stored)
qed

section \<open>Properties of WebSocketTransport\<close>

text \<open>The staleness test in terms of the two time differences.\<close>

lemma connectionUnresponsive_iff:
  "connectionUnresponsive ttl t st \<longleftrightarrow>
     0 < min (t - lastMessageReceivedAt st) (t - connectionOpenedAt st)
     \<and> ttl < min (t - lastMessageReceivedAt st) (t - connectionOpenedAt st)"
  by (auto simp: connectionUnresponsive_def timeSinceLastActivity_def Let_def)

lemma connectionUnresponsive_desired [simp]:
  "connectionUnresponsive ttl t (st\<lparr>desiredSubscriptions := ds\<rparr>) = connectionUnresponsive ttl t st"
  by (simp add: connectionUnresponsive_def timeSinceLastActivity_def)

lemma connectionClosed_desired [simp]:
  "connectionClosed (st\<lparr>desiredSubscriptions := ds\<rparr>) = connectionClosed st"
  by (simp add: connectionClosed_def)

text \<open>A payload that is a string is sent unchanged. In the concrete ticks below
  the subscription parameters are strings, so the serializer is the identity.\<close>

lemma serializeMessage_string: "serializeMessage Some JSON_stringify payload = payload"
  by (simp add: serializeMessage_def)

text \<open>The end of a tick: with a socket the messages are sent and the tick
  returns; sending never constructs a socket; the transport and the deltas are
  handed through.\<close>

lemma sendPhase_with_socket:
  "ws \<noteq> None \<Longrightarrow>
   sendPhase bs ws serialize subs
     = Inr (case bs of
              None \<Rightarrow> []
            | Some b \<Rightarrow>
                map SocketSend (map serialize (subscribePayloads b subs)
                                @ map serialize (unsubscribePayloads b subs)))"
  by (cases bs) (simp_all add: sendPhase_def sendMessages_def)

lemma sendPhase_no_new: "sendPhase bs ws serialize subs = Inr sends \<Longrightarrow> \<not> list_ex isNew sends"
  by (cases bs) (auto simp: sendPhase_def sendMessages_def list_ex_iff split: if_splits)

lemma sendAndReturn_with_socket:
  "wsConnection st \<noteq> None \<Longrightarrow>
   sendAndReturn config serialize es st subs
     = \<lparr>effects = es @ (case builders config of
                           None \<Rightarrow> []
                         | Some b \<Rightarrow>
                             map SocketSend (map serialize (subscribePayloads b subs)
                                             @ map serialize (unsubscribePayloads b subs))),
        outcome = Returned, transport = st, subscriptions = subs\<rparr>"
  by (simp add: sendAndReturn_def sendPhase_with_socket)

lemma sendAndReturn_frame:
  "transport (sendAndReturn config serialize es st subs) = st"
  "subscriptions (sendAndReturn config serialize es st subs) = subs"
  "list_ex isNew (effects (sendAndReturn config serialize es st subs)) = list_ex isNew es"
  by (auto simp: sendAndReturn_def dest: sendPhase_no_new split: sum.splits)

text \<open>The ways through \<^verbatim>\<open>streamHandler\<close>: the early return, the URL function
  throwing, a tick that closes the connection, and a tick that does not.\<close>

lemma streamHandler_skip:
  assumes "new subs = []" and "wsConnection st = None"
  shows "streamHandler config serialize ttl env subs st
           = \<lparr>effects = [], outcome = Returned,
              transport = st\<lparr>desiredSubscriptions := desired subs\<rparr>, subscriptions = subs\<rparr>"
  using assms by (simp add: streamHandler_def)

lemma streamHandler_url_throws:
  assumes "new subs \<noteq> [] \<or> wsConnection st \<noteq> None"
    and "url config (desired subs) = Inl e"
  shows "streamHandler config serialize ttl env subs st
           = \<lparr>effects = [], outcome = Threw,
              transport = st\<lparr>desiredSubscriptions := desired subs\<rparr>, subscriptions = subs\<rparr>"
  using assms by (auto simp: streamHandler_def)

lemma streamHandler_closing:
  assumes "\<not> connectionClosed st"
    and "url config (desired subs) = Inr u"
    and "u \<noteq> currentUrl st \<or> connectionUnresponsive ttl (now env) st"
  shows "streamHandler config serialize ttl env subs st =
     (let subs1 = subs\<lparr>new := desired subs\<rparr>;
          st2 = st\<lparr>desiredSubscriptions := desired subs, wsConnection := Some CLOSING\<rparr>
      in if desired subs \<noteq> []
         then
           if optionsRejected config
           then \<lparr>effects = [SocketClose], outcome = Threw, transport = st2, subscriptions = subs1\<rparr>
           else
             let st3 = st2\<lparr>currentUrl := u,
                           providerDataStreamEstablished := streamEstablishedAt env,
                           wsConnection := Some CONNECTING\<rparr>
             in (case established env of
                   NeverSettled \<Rightarrow>
                     \<lparr>effects = [SocketClose, SocketNew u], outcome = Suspended, transport = st3,
                      subscriptions = subs1\<rparr>
                 | Rejected \<Rightarrow>
                     \<lparr>effects = [SocketClose, SocketNew u], outcome = Threw,
                      transport = st3\<lparr>wsConnection := Some OPEN\<rparr>, subscriptions = subs1\<rparr>
                 | Resolved \<Rightarrow>
                     sendAndReturn config serialize [SocketClose, SocketNew u]
                       (st3\<lparr>wsConnection := Some OPEN, connectionOpenedAt := openedAt env\<rparr>) subs1)
         else sendAndReturn config serialize [SocketClose] st2 subs1)"
proof -
  have conn: "wsConnection st \<noteq> None"
    using assms(1) by (auto simp: connectionClosed_def)
  have closing: "currentUrl st \<noteq> u \<or> connectionUnresponsive ttl (now env) st"
    using assms(3) by auto
  show ?thesis
    unfolding streamHandler_def Let_def
    using conn assms(1,2) closing
    by (auto split: establishment.splits)
qed

lemma streamHandler_not_closing:
  assumes "new subs \<noteq> [] \<or> wsConnection st \<noteq> None"
    and "url config (desired subs) = Inr u"
    and "connectionClosed st \<or> (u = currentUrl st \<and> \<not> connectionUnresponsive ttl (now env) st)"
  shows "streamHandler config serialize ttl env subs st =
     (let st1 = st\<lparr>desiredSubscriptions := desired subs\<rparr>
      in if connectionClosed st \<and> desired subs \<noteq> []
         then
           if optionsRejected config
           then \<lparr>effects = [], outcome = Threw, transport = st1, subscriptions = subs\<rparr>
           else
             let st3 = st1\<lparr>currentUrl := u,
                           providerDataStreamEstablished := streamEstablishedAt env,
                           wsConnection := Some CONNECTING\<rparr>
             in (case established env of
                   NeverSettled \<Rightarrow>
                     \<lparr>effects = [SocketNew u], outcome = Suspended, transport = st3,
                      subscriptions = subs\<rparr>
                 | Rejected \<Rightarrow>
                     \<lparr>effects = [SocketNew u], outcome = Threw,
                      transport = st3\<lparr>wsConnection := Some OPEN\<rparr>, subscriptions = subs\<rparr>
                 | Resolved \<Rightarrow>
                     sendAndReturn config serialize [SocketNew u]
                       (st3\<lparr>wsConnection := Some OPEN, connectionOpenedAt := openedAt env\<rparr>) subs)
         else sendAndReturn config serialize [] st1 subs)"
proof -
  have skip: "\<not> (new subs = [] \<and> wsConnection st = None)"
    using assms(1) by auto
  have closing: "\<not> (\<not> connectionClosed st
                    \<and> (currentUrl st \<noteq> u \<or> connectionUnresponsive ttl (now env) st))"
    using assms(3) by auto
  show ?thesis
    unfolding streamHandler_def Let_def
    using skip assms(2) closing
    by (auto split: establishment.splits)
qed

text \<open>A tick that finds the connection not closed and has to close it: every
  way it can end starts with the \<^verbatim>\<open>close\<close>.\<close>

lemma streamHandler_closing_first_effect:
  assumes "\<not> connectionClosed st"
    and "url config (desired subs) = Inr u"
    and "u \<noteq> currentUrl st \<or> connectionUnresponsive ttl (now env) st"
  shows "\<exists>es. effects (streamHandler config serialize ttl env subs st) = SocketClose # es"
proof -
  have conn: "wsConnection st \<noteq> None"
    using assms(1) by (auto simp: connectionClosed_def)
  show ?thesis
    using conn
    by (simp add: streamHandler_closing [OF assms] Let_def sendAndReturn_with_socket
             split: establishment.splits)
qed

text \<open>
  \<^bold>\<open>Claim C1.\<close> In every tick in which the connection is not closed (in
  particular when it is open) and, at the start of the tick,
  \<open>min (now - lastMessageReceivedAt) (now - connectionOpenedAt)\<close> exceeds
  \<^verbatim>\<open>WS_SUBSCRIPTION_UNRESPONSIVE_TTL\<close>, the socket is closed before any subscribe
  or unsubscribe message is sent: no \<^verbatim>\<open>send\<close> comes before the \<^verbatim>\<open>close\<close>. More
  precisely, when the URL function returns, the first call on the socket is
  \<^verbatim>\<open>close\<close>; when it throws, the tick ends at once and nothing is closed or
  sent. The TTL is a duration: it is not negative.
\<close>

theorem unresponsive_connection_closed_before_send:
  assumes "\<not> connectionClosed st"
    and "0 \<le> ttl"
    and "ttl < min (now env - lastMessageReceivedAt st) (now env - connectionOpenedAt st)"
  shows "noSendBeforeClose (effects (streamHandler config serialize ttl env subs st))
       \<and> (\<not> isl (url config (desired subs)) \<longrightarrow>
            (\<exists>es. effects (streamHandler config serialize ttl env subs st) = SocketClose # es))
       \<and> (isl (url config (desired subs)) \<longrightarrow>
            effects (streamHandler config serialize ttl env subs st) = []
            \<and> outcome (streamHandler config serialize ttl env subs st) = Threw)"
proof (cases "url config (desired subs)")
  case (Inl e)
  have "new subs \<noteq> [] \<or> wsConnection st \<noteq> None"
    using assms(1) by (auto simp: connectionClosed_def)
  then show ?thesis
    using Inl by (simp add: streamHandler_url_throws)
next
  case (Inr u)
  have "connectionUnresponsive ttl (now env) st"
    using assms(2,3) by (simp add: connectionUnresponsive_iff)
  then have "\<exists>es. effects (streamHandler config serialize ttl env subs st) = SocketClose # es"
    using assms(1) Inr by (intro streamHandler_closing_first_effect) auto
  then show ?thesis
    using Inr by auto
qed

text \<open>A connection opened at 100000 with its last message at 200000, a tick at
  500000 and a TTL of 120000: closed, reopened, and both desired subscriptions
  sent.\<close>

theorem unresponsive_connection_closed_before_send_witness:
  "effects
     (streamHandler
        \<lparr>url = (\<lambda>ds. Inr ''wss://a''), options = None, message = (\<lambda>(m :: unit) ds. Inr None),
         builders = Some \<lparr>subscribeMessage = None, unsubscribeMessage = None\<rparr>\<rparr>
        (\<lambda>payload. payload) 120000
        \<lparr>now = 500000, streamEstablishedAt = 500001, established = Resolved, openedAt = 500002\<rparr>
        \<lparr>new = [''Y''], stale = [], desired = [''X'', ''Y'']\<rparr>
        \<lparr>wsConnection = Some OPEN, currentUrl = ''wss://a'', lastMessageReceivedAt = 200000,
         connectionOpenedAt = 100000, providerDataStreamEstablished = 100000,
         desiredSubscriptions = [''X'']\<rparr>)
     = ([SocketClose, SocketNew ''wss://a'', SocketSend ''X'', SocketSend ''Y'']
          :: (string, unit) effect list)
   \<and> noSendBeforeClose
       ([SocketClose, SocketNew ''wss://a'', SocketSend ''X'', SocketSend ''Y'']
          :: (string, unit) effect list)"
proof -
  let ?st = "\<lparr>wsConnection = Some OPEN, currentUrl = ''wss://a'',
              lastMessageReceivedAt = 200000, connectionOpenedAt = 100000,
              providerDataStreamEstablished = 100000, desiredSubscriptions = [''X'']\<rparr>"
  let ?env = "\<lparr>now = 500000, streamEstablishedAt = 500001, established = Resolved,
               openedAt = 500002\<rparr>"
  let ?config = "\<lparr>url = (\<lambda>ds. Inr ''wss://a''), options = None, message = (\<lambda>(m :: unit) ds. Inr None),
                  builders = Some \<lparr>subscribeMessage = None, unsubscribeMessage = None\<rparr>\<rparr>
                 :: (string, unit, unit) WebSocketTransportConfig"
  let ?subs = "\<lparr>new = [''Y''], stale = [], desired = [''X'', ''Y'']\<rparr>"
  have "open": "\<not> connectionClosed ?st"
    by (simp add: connectionClosed_def)
  have duration: "(0::int) \<le> 120000"
    by simp
  have exceeds: "120000 < min (now ?env - lastMessageReceivedAt ?st) (now ?env - connectionOpenedAt ?st)"
    by simp
  have run: "effects (streamHandler ?config (\<lambda>payload. payload) 120000 ?env ?subs ?st)
      = [SocketClose, SocketNew ''wss://a'', SocketSend ''X'', SocketSend ''Y'']"
    by (simp add: streamHandler_def Let_def connectionClosed_def connectionUnresponsive_def
          timeSinceLastActivity_def optionsRejected_def sendAndReturn_def sendPhase_def
          sendMessages_def subscribePayloads_def unsubscribePayloads_def)
  show ?thesis
    using unresponsive_connection_closed_before_send
            [OF "open" duration exceeds, where config = ?config and subs = ?subs
               and serialize = "\<lambda>payload. payload"]
    by (simp add: run)
qed




text \<open>
  \<^bold>\<open>Claim C9\<close> says that a tick with an empty new-subscriptions delta and a
  disconnected transport returns without opening a connection and without
  sending. The early return tests that no socket object exists. A transport
  whose socket has reached \<^verbatim>\<open>CLOSED\<close> is disconnected too
  (\<^verbatim>\<open>connectionClosed()\<close> holds), and for it the tick goes on: it opens a
  connection for the desired subscriptions and sends the unsubscribe message.
\<close>

theorem closed_socket_reconnects_without_new_subscriptions:
  "connectionClosed
     \<lparr>wsConnection = Some CLOSED, currentUrl = ''wss://a'', lastMessageReceivedAt = 100,
      connectionOpenedAt = 100, providerDataStreamEstablished = 100,
      desiredSubscriptions = [''X'', ''Y'']\<rparr>
   \<and> new \<lparr>new = [], stale = [''Y''], desired = [''X'']\<rparr> = ([] :: string list)
   \<and> effects
       (streamHandler
          \<lparr>url = (\<lambda>ds. Inr ''wss://a''), options = None, message = (\<lambda>(m :: unit) ds. Inr None),
           builders = Some \<lparr>subscribeMessage = None, unsubscribeMessage = None\<rparr>\<rparr>
          (\<lambda>payload. payload) 120000
          \<lparr>now = 101, streamEstablishedAt = 102, established = Resolved, openedAt = 103\<rparr>
          \<lparr>new = [], stale = [''Y''], desired = [''X'']\<rparr>
          \<lparr>wsConnection = Some CLOSED, currentUrl = ''wss://a'', lastMessageReceivedAt = 100,
           connectionOpenedAt = 100, providerDataStreamEstablished = 100,
           desiredSubscriptions = [''X'', ''Y'']\<rparr>)
     = ([SocketNew ''wss://a'', SocketSend ''Y''] :: (string, unit) effect list)"
  by (simp add: streamHandler_def Let_def connectionClosed_def connectionUnresponsive_def
        timeSinceLastActivity_def optionsRejected_def sendAndReturn_def sendPhase_def
        sendMessages_def subscribePayloads_def unsubscribePayloads_def)

text \<open>
  \<^bold>\<open>Claim C9, amended.\<close> In every tick in which the new-subscriptions delta is
  empty and no socket has been created yet (\<^verbatim>\<open>wsConnection\<close> is unset),
  \<^verbatim>\<open>streamHandler\<close> returns without opening a connection and without sending any
  message; only \<^verbatim>\<open>desiredSubscriptions\<close> is updated.
\<close>

theorem no_socket_and_no_new_subscriptions_skips:
  assumes "new subs = []" and "wsConnection st = None"
  shows "streamHandler config serialize ttl env subs st
           = \<lparr>effects = [], outcome = Returned,
              transport = st\<lparr>desiredSubscriptions := desired subs\<rparr>, subscriptions = subs\<rparr>"
  using assms by (rule streamHandler_skip)

text \<open>A fresh transport and a tick without new subscriptions.\<close>

theorem no_socket_and_no_new_subscriptions_skips_witness:
  "streamHandler
     \<lparr>url = (\<lambda>ds. Inr ''wss://a''), options = None, message = (\<lambda>(m :: unit) ds. Inr None),
      builders = Some \<lparr>subscribeMessage = None, unsubscribeMessage = None\<rparr>\<rparr>
     (\<lambda>payload. payload) 120000
     \<lparr>now = 101, streamEstablishedAt = 102, established = Resolved, openedAt = 103\<rparr>
     \<lparr>new = [], stale = [''Y''], desired = [''X'']\<rparr>
     (newTransport 0)
   = (\<lparr>effects = [], outcome = Returned,
       transport = \<lparr>wsConnection = None, currentUrl = [], lastMessageReceivedAt = 0,
                    connectionOpenedAt = 0, providerDataStreamEstablished = 0,
                    desiredSubscriptions = [''X'']\<rparr>,
       subscriptions = \<lparr>new = [], stale = [''Y''], desired = [''X'']\<rparr>\<rparr>
      :: (string, unit) tick)"
proof -
  let ?subs = "\<lparr>new = [], stale = [''Y''], desired = [''X'']\<rparr>"
  let ?config = "\<lparr>url = (\<lambda>ds. Inr ''wss://a''), options = None, message = (\<lambda>(m :: unit) ds. Inr None),
                  builders = Some \<lparr>subscribeMessage = None, unsubscribeMessage = None\<rparr>\<rparr>
                 :: (string, unit, unit) WebSocketTransportConfig"
  have empty: "new ?subs = []"
    by simp
  have none: "wsConnection (newTransport 0 :: string WebSocketTransport) = None"
    by (simp add: newTransport_def)
  show ?thesis
    using no_socket_and_no_new_subscriptions_skips
            [OF empty none, of ?config "\<lambda>payload. payload" 120000
               "\<lparr>now = 101, streamEstablishedAt = 102, established = Resolved, openedAt = 103\<rparr>"]
    by (simp add: newTransport_def)
qed

text \<open>
  \<^bold>\<open>Claim C3\<close> says that a message for which the handler returns an empty array
  leaves \<^verbatim>\<open>lastMessageReceivedAt\<close> unchanged. \<^verbatim>\<open>Array.isArray([])\<close> holds: with a
  handler that returns the empty array, a transport whose last message was at
  100 has it at 501 after the message.
\<close>

theorem empty_array_updates_lastMessageReceivedAt:
  "message \<lparr>url = (\<lambda>ds. Inr ''wss://a''), options = None,
            message = (\<lambda>(m :: unit) ds. Inr (Some ([] :: (string, unit) ProviderResult list))),
            builders = None\<rparr> () [''X'']
     = Inr (Some [])
   \<and> lastMessageReceivedAt
       \<lparr>wsConnection = Some OPEN, currentUrl = ''wss://a'', lastMessageReceivedAt = 100,
        connectionOpenedAt = 100, providerDataStreamEstablished = 90,
        desiredSubscriptions = [''X'']\<rparr> = 100
   \<and> lastMessageReceivedAt
       (snd (messageHandler
               \<lparr>url = (\<lambda>ds. Inr ''wss://a''), options = None,
                message = (\<lambda>(m :: unit) ds. Inr (Some ([] :: (string, unit) ProviderResult list))),
                builders = None\<rparr>
               (\<lambda>data. Some ()) ''{}'' 500 501
               \<lparr>wsConnection = Some OPEN, currentUrl = ''wss://a'', lastMessageReceivedAt = 100,
                connectionOpenedAt = 100, providerDataStreamEstablished = 90,
                desiredSubscriptions = [''X'']\<rparr>)) = 501"
  by (simp add: messageHandler_def)

text \<open>
  \<^bold>\<open>Claim C3, amended.\<close> For every inbound message, \<^verbatim>\<open>lastMessageReceivedAt\<close> is
  updated if and only if the user's message handler returns an array, empty or
  not: then the stamped results are written to the cache and
  \<^verbatim>\<open>lastMessageReceivedAt\<close> becomes the current time. When the handler returns
  \<^verbatim>\<open>undefined\<close>, or throws, or the message cannot be deserialized, the transport
  is left as it was and nothing is written.
\<close>

theorem lastMessageReceivedAt_updated_iff_array_returned:
  "(deserializeMessage data = Some parsed
      \<and> message config parsed (desiredSubscriptions st) = Inr (Some rs) \<longrightarrow>
        messageHandler config deserializeMessage data received written st
          = (Inr [CacheWrite (map (stampResult (providerDataStreamEstablished st) received) rs)],
             st\<lparr>lastMessageReceivedAt := written\<rparr>))
   \<and> (deserializeMessage data = Some parsed
      \<and> message config parsed (desiredSubscriptions st) = Inr None \<longrightarrow>
        messageHandler config deserializeMessage data received written st = (Inr [], st))
   \<and> (deserializeMessage data = Some parsed
      \<and> message config parsed (desiredSubscriptions st) = Inl e \<longrightarrow>
        messageHandler config deserializeMessage data received written st = (Inl e, st))
   \<and> (deserializeMessage data = None \<longrightarrow>
        messageHandler config deserializeMessage data received written st = (Inl SyntaxError, st))"
  by (simp add: messageHandler_def)

text \<open>A handler that answers the empty array for a price message and
  \<^verbatim>\<open>undefined\<close> for anything else, on one message of each kind.\<close>

theorem lastMessageReceivedAt_updated_iff_array_returned_witness:
  "messageHandler
     \<lparr>url = (\<lambda>ds. Inr ''wss://a''), options = None,
      message = (\<lambda>(m :: bool) ds.
                   if m then Inr (Some ([] :: (string, unit) ProviderResult list)) else Inr None),
      builders = None\<rparr>
     (\<lambda>data. Some (data = ''price'')) ''price'' 500 501
     \<lparr>wsConnection = Some OPEN, currentUrl = ''wss://a'', lastMessageReceivedAt = 100,
      connectionOpenedAt = 100, providerDataStreamEstablished = 90,
      desiredSubscriptions = [''X'']\<rparr>
   = (Inr [CacheWrite []],
      \<lparr>wsConnection = Some OPEN, currentUrl = ''wss://a'', lastMessageReceivedAt = 501,
       connectionOpenedAt = 100, providerDataStreamEstablished = 90,
       desiredSubscriptions = [''X'']\<rparr>)
   \<and> messageHandler
     \<lparr>url = (\<lambda>ds. Inr ''wss://a''), options = None,
      message = (\<lambda>(m :: bool) ds.
                   if m then Inr (Some ([] :: (string, unit) ProviderResult list)) else Inr None),
      builders = None\<rparr>
     (\<lambda>data. Some (data = ''price'')) ''heartbeat'' 500 501
     \<lparr>wsConnection = Some OPEN, currentUrl = ''wss://a'', lastMessageReceivedAt = 100,
      connectionOpenedAt = 100, providerDataStreamEstablished = 90,
      desiredSubscriptions = [''X'']\<rparr>
   = (Inr [],
      \<lparr>wsConnection = Some OPEN, currentUrl = ''wss://a'', lastMessageReceivedAt = 100,
       connectionOpenedAt = 100, providerDataStreamEstablished = 90,
       desiredSubscriptions = [''X'']\<rparr>)"
proof -
  let ?config = "\<lparr>url = (\<lambda>ds. Inr ''wss://a''), options = None,
      message = (\<lambda>(m :: bool) ds.
                   if m then Inr (Some ([] :: (string, unit) ProviderResult list)) else Inr None),
      builders = None\<rparr> :: (string, bool, unit) WebSocketTransportConfig"
  let ?deserialize = "\<lambda>data. Some (data = ''price'')"
  let ?st = "\<lparr>wsConnection = Some OPEN, currentUrl = ''wss://a'', lastMessageReceivedAt = 100,
      connectionOpenedAt = 100, providerDataStreamEstablished = 90,
      desiredSubscriptions = [''X'']\<rparr>"
  have price: "?deserialize ''price'' = Some True"
    by simp
  have heartbeat: "?deserialize ''heartbeat'' = Some False"
    by simp
  show ?thesis
    using lastMessageReceivedAt_updated_iff_array_returned
            [of ?deserialize "''price''" True ?config ?st "[]" 500 501]
          lastMessageReceivedAt_updated_iff_array_returned
            [of ?deserialize "''heartbeat''" False ?config ?st "[]" 500 501]
    by simp
qed

text \<open>
  \<^bold>\<open>Claim C4\<close> says that the results written from an inbound message carry
  \<^verbatim>\<open>providerDataStreamEstablished\<close> equal to \<^verbatim>\<open>connectionOpenedAt\<close>. The two are
  different readings of the clock, one before the connection attempt and one
  after the connection is established: a fresh transport connects in a tick
  that reads 1000 before the attempt and 1250 after it; \<^verbatim>\<open>connectionOpenedAt\<close>
  is 1250 and the result of the next message is stamped 1000.
\<close>

theorem stream_established_stamp_differs_from_connectionOpenedAt:
  "connectionOpenedAt
     (transport
        (streamHandler
           \<lparr>url = (\<lambda>ds. Inr ''wss://a''), options = None,
            message = (\<lambda>(m :: unit) ds.
                         Inr (Some [\<lparr>params = ''X'', response = (), indicatedTime = None\<rparr>])),
            builders = None\<rparr>
           (\<lambda>payload. payload) 120000
           \<lparr>now = 1000, streamEstablishedAt = 1000, established = Resolved, openedAt = 1250\<rparr>
           \<lparr>new = [''X''], stale = [], desired = [''X'']\<rparr>
           (newTransport 0) :: (string, unit) tick)) = 1250
   \<and> map (\<lambda>r. stampStreamEstablished (timestamps r))
       (writtenResults
          (projr (fst (messageHandler
             \<lparr>url = (\<lambda>ds. Inr ''wss://a''), options = None,
              message = (\<lambda>(m :: unit) ds.
                           Inr (Some [\<lparr>params = ''X'', response = (), indicatedTime = None\<rparr>])),
              builders = None\<rparr>
             (\<lambda>data. Some ()) ''{}'' 1300 1301
             (transport
                (streamHandler
                   \<lparr>url = (\<lambda>ds. Inr ''wss://a''), options = None,
                    message = (\<lambda>(m :: unit) ds.
                                 Inr (Some [\<lparr>params = ''X'', response = (), indicatedTime = None\<rparr>])),
                    builders = None\<rparr>
                   (\<lambda>payload. payload) 120000
                   \<lparr>now = 1000, streamEstablishedAt = 1000, established = Resolved,
                    openedAt = 1250\<rparr>
                   \<lparr>new = [''X''], stale = [], desired = [''X'']\<rparr>
                   (newTransport 0) :: (string, unit) tick)))))) = [1000]"
  by (simp add: streamHandler_def Let_def connectionClosed_def connectionUnresponsive_def
        timeSinceLastActivity_def optionsRejected_def sendAndReturn_def sendPhase_def
        newTransport_def messageHandler_def stampResult_def)

text \<open>A tick that constructs a socket records the reading taken before the
  attempt, and the one taken after it when the attempt resolves.\<close>

lemma streamHandler_new_socket:
  assumes "list_ex isNew (effects (streamHandler config serialize ttl env subs st))"
  shows "providerDataStreamEstablished (transport (streamHandler config serialize ttl env subs st))
           = streamEstablishedAt env
       \<and> (outcome (streamHandler config serialize ttl env subs st) = Returned \<longrightarrow>
            connectionOpenedAt (transport (streamHandler config serialize ttl env subs st))
              = openedAt env)"
proof (cases "new subs = [] \<and> wsConnection st = None")
  case True
  with assms show ?thesis
    by (simp add: streamHandler_skip)
next
  case False
  then have started: "new subs \<noteq> [] \<or> wsConnection st \<noteq> None"
    by auto
  show ?thesis
  proof (cases "url config (desired subs)")
    case (Inl e)
    with assms started show ?thesis
      by (simp add: streamHandler_url_throws)
  next
    case (Inr u)
    show ?thesis
    proof (cases "\<not> connectionClosed st
                  \<and> (u \<noteq> currentUrl st \<or> connectionUnresponsive ttl (now env) st)")
      case True
      then have run: "\<not> connectionClosed st"
          "u \<noteq> currentUrl st \<or> connectionUnresponsive ttl (now env) st"
        by auto
      show ?thesis
        using assms
        by (simp add: streamHandler_closing [OF run(1) Inr run(2)] Let_def sendAndReturn_frame
                 split: if_splits establishment.splits)
    next
      case False
      then have run: "connectionClosed st
           \<or> (u = currentUrl st \<and> \<not> connectionUnresponsive ttl (now env) st)"
        by auto
      show ?thesis
        using assms
        by (simp add: streamHandler_not_closing [OF started Inr run] Let_def sendAndReturn_frame
                 split: if_splits establishment.splits)
    qed
  qed
qed

text \<open>
  \<^bold>\<open>Claim C4, amended.\<close> Every result written to the response cache from an
  inbound message carries \<^verbatim>\<open>timestamps.providerDataStreamEstablished\<close> equal to
  the transport's field \<^verbatim>\<open>providerDataStreamEstablished\<close> (and
  \<^verbatim>\<open>providerDataReceived\<close> equal to the time of receipt). That field is the
  reading of the clock taken just before the current connection was attempted;
  \<^verbatim>\<open>connectionOpenedAt\<close> is a later reading, taken once the connection is
  established.
\<close>

theorem written_results_carry_stream_established:
  "(messageHandler config deserializeMessage data received written st = (Inr es, st')
      \<and> r \<in> set (writtenResults es) \<longrightarrow>
        stampStreamEstablished (timestamps r) = providerDataStreamEstablished st
        \<and> stampDataReceived (timestamps r) = received)
   \<and> (list_ex isNew (effects (streamHandler config serialize ttl env subs st0)) \<longrightarrow>
        providerDataStreamEstablished (transport (streamHandler config serialize ttl env subs st0))
          = streamEstablishedAt env
        \<and> (outcome (streamHandler config serialize ttl env subs st0) = Returned \<longrightarrow>
             connectionOpenedAt (transport (streamHandler config serialize ttl env subs st0))
               = openedAt env))"
proof -
  have "stampStreamEstablished (timestamps r) = providerDataStreamEstablished st
        \<and> stampDataReceived (timestamps r) = received"
    if "messageHandler config deserializeMessage data received written st = (Inr es, st')"
      and "r \<in> set (writtenResults es)"
    using that
    by (auto simp: messageHandler_def stampResult_def split: option.splits sum.splits)
  then show ?thesis
    using streamHandler_new_socket [of config serialize ttl env subs st0]
    by blast
qed

text \<open>The first tick of a fresh transport, which reads 1000 before the attempt
  and 1250 after it, and the message handled on the transport it leaves.\<close>

theorem written_results_carry_stream_established_witness:
  "messageHandler
     \<lparr>url = (\<lambda>ds. Inr ''wss://a''), options = None,
      message = (\<lambda>(m :: unit) ds.
                   Inr (Some [\<lparr>params = ''X'', response = (), indicatedTime = Some 1290\<rparr>])),
      builders = None\<rparr>
     (\<lambda>data. Some ()) ''{}'' 1300 1301
     \<lparr>wsConnection = Some OPEN, currentUrl = ''wss://a'', lastMessageReceivedAt = 0,
      connectionOpenedAt = 1250, providerDataStreamEstablished = 1000,
      desiredSubscriptions = [''X'']\<rparr>
   = (Inr [CacheWrite
             [\<lparr>resultParams = ''X'', resultResponse = (),
               timestamps = \<lparr>stampStreamEstablished = 1000, stampDataReceived = 1300,
                             stampIndicatedTime = Some 1290\<rparr>\<rparr>]],
      \<lparr>wsConnection = Some OPEN, currentUrl = ''wss://a'', lastMessageReceivedAt = 1301,
       connectionOpenedAt = 1250, providerDataStreamEstablished = 1000,
       desiredSubscriptions = [''X'']\<rparr>)
   \<and> transport
       (streamHandler
          \<lparr>url = (\<lambda>ds. Inr ''wss://a''), options = None,
           message = (\<lambda>(m :: unit) ds.
                        Inr (Some [\<lparr>params = ''X'', response = (), indicatedTime = Some 1290\<rparr>])),
           builders = None\<rparr>
          (\<lambda>payload. payload) 120000
          \<lparr>now = 1000, streamEstablishedAt = 1000, established = Resolved, openedAt = 1250\<rparr>
          \<lparr>new = [''X''], stale = [], desired = [''X'']\<rparr>
          (newTransport 0) :: (string, unit) tick)
     = \<lparr>wsConnection = Some OPEN, currentUrl = ''wss://a'', lastMessageReceivedAt = 0,
        connectionOpenedAt = 1250, providerDataStreamEstablished = 1000,
        desiredSubscriptions = [''X'']\<rparr>"
proof -
  let ?config = "\<lparr>url = (\<lambda>ds. Inr ''wss://a''), options = None,
      message = (\<lambda>(m :: unit) ds.
                   Inr (Some [\<lparr>params = ''X'', response = (), indicatedTime = Some 1290\<rparr>])),
      builders = None\<rparr> :: (string, unit, unit) WebSocketTransportConfig"
  let ?env = "\<lparr>now = 1000, streamEstablishedAt = 1000, established = Resolved, openedAt = 1250\<rparr>"
  let ?subs = "\<lparr>new = [''X''], stale = [], desired = [''X'']\<rparr>"
  let ?st = "\<lparr>wsConnection = Some OPEN, currentUrl = ''wss://a'', lastMessageReceivedAt = 0,
      connectionOpenedAt = 1250, providerDataStreamEstablished = 1000,
      desiredSubscriptions = [''X'']\<rparr>"
  let ?r = "\<lparr>resultParams = ''X'', resultResponse = (),
             timestamps = \<lparr>stampStreamEstablished = 1000, stampDataReceived = 1300,
                           stampIndicatedTime = Some 1290\<rparr>\<rparr>"
  let ?tick = "streamHandler ?config (\<lambda>payload. payload) 120000 ?env ?subs (newTransport 0)
                 :: (string, unit) tick"
  have tick: "?tick = \<lparr>effects = [SocketNew ''wss://a''], outcome = Returned, transport = ?st,
                        subscriptions = ?subs\<rparr>"
    by (simp add: streamHandler_def Let_def connectionClosed_def connectionUnresponsive_def
          timeSinceLastActivity_def optionsRejected_def sendAndReturn_def sendPhase_def
          newTransport_def)
  have handled: "messageHandler ?config (\<lambda>data. Some ()) ''{}'' 1300 1301 ?st
                   = (Inr [CacheWrite [?r]], ?st\<lparr>lastMessageReceivedAt := 1301\<rparr>)"
    by (simp add: messageHandler_def stampResult_def)
  have written: "?r \<in> set (writtenResults [CacheWrite [?r]])"
    by simp
  have opened: "list_ex isNew (effects ?tick)"
    by (simp add: tick)
  have returned: "outcome ?tick = Returned"
    by (simp add: tick)
  show ?thesis
    using written_results_carry_stream_established
            [where config = ?config and deserializeMessage = "\<lambda>data. Some ()"
               and data = "''{}''" and received = 1300 and written = 1301 and st = ?st
               and es = "[CacheWrite [?r]]" and st' = "?st\<lparr>lastMessageReceivedAt := 1301\<rparr>"
               and r = ?r and serialize = "\<lambda>payload. payload" and ttl = 120000
               and env = ?env and subs = ?subs and ?st0.0 = "newTransport 0"]
          handled written opened returned
    by (simp add: tick)
qed

end
